theory Spec2Isabelle
  imports Main
begin

section \<open>Financial document analysis notebook: the embedding\<close>

text \<open>
  The program is the notebook
  \<^verbatim>\<open>examples/third_party/financial_document_analysis_with_llamaindex.ipynb\<close>:
  a straight line of statements, each a call into langchain or llama_index. The
  framework is not part of the repository, so it is a parameter of the model: a record
  of operations, each returning its result or the exception it raises. Framework
  objects (the client, the service context, documents, indices, engines, responses) are
  values of one opaque type \<open>'o\<close>, as every Python value is an object.

  The kernel is the notebook's namespace (one optional binding per top-level name), the
  module-level default service context of llama_index, and the trace of what the
  program has asked of the outside world, in order. Statements run in the order of the
  notebook and the run stops at the first exception, which is returned with the kernel
  as it stands.
\<close>

subsection \<open>Data\<close>

datatype exn = NameError string | FrameworkError string

text \<open>The keyword arguments of \<^verbatim>\<open>OpenAI(temperature=..., model_name=..., max_tokens=...)\<close>.\<close>

record llm_args =
  temperature :: int
  model_name :: string
  max_tokens :: int

text \<open>\<^verbatim>\<open>ToolMetadata(name=..., description=...)\<close> and
  \<^verbatim>\<open>QueryEngineTool(query_engine=..., metadata=...)\<close>: plain containers.\<close>

record tool_metadata =
  name :: string
  description :: string

record 'o query_engine_tool =
  query_engine :: 'o
  metadata :: tool_metadata

text \<open>
  The external framework. Every llama_index entry point takes the module-level default
  service context as its first argument: the notebook passes no \<^verbatim>\<open>service_context\<close>
  itself and relies on the global default (line 158: "set it as the global default, so
  all subsequent operations that depends on LLM calls will use the model we configured").
  \<open>SimpleDirectoryReader_load_data\<close> is the expression
  \<^verbatim>\<open>SimpleDirectoryReader(input_files=fs).load_data()\<close>, whose reader object is a
  temporary. \<open>aquery\<close> is the awaited method call \<^verbatim>\<open>await e.aquery(q)\<close>, on a
  simple engine or on the sub-question engine alike.
\<close>

record 'o framework =
  import_from :: "string \<Rightarrow> string list \<Rightarrow> exn option"
  OpenAI :: "llm_args \<Rightarrow> exn + 'o"
  ServiceContext_from_defaults :: "'o option \<Rightarrow> 'o \<Rightarrow> exn + 'o"
  SimpleDirectoryReader_load_data :: "'o option \<Rightarrow> string list \<Rightarrow> exn + 'o list"
  VectorStoreIndex_from_documents :: "'o option \<Rightarrow> 'o list \<Rightarrow> exn + 'o"
  as_query_engine :: "'o option \<Rightarrow> 'o \<Rightarrow> int \<Rightarrow> exn + 'o"
  aquery :: "'o option \<Rightarrow> 'o \<Rightarrow> string \<Rightarrow> exn + 'o"
  SubQuestionQueryEngine_from_defaults ::
    "'o option \<Rightarrow> 'o query_engine_tool list \<Rightarrow> exn + 'o"
  str_of :: "'o \<Rightarrow> string"

text \<open>What the program asks of the outside world, with the arguments it passes.\<close>

datatype 'o event =
    is_shell: Shell string
  | is_import: Import_from string "string list"
  | is_openai: OpenAI_call llm_args
  | is_service_context: ServiceContext_call "'o option" 'o
  | is_set_global: Set_global_call 'o
  | is_load_data: Load_data_call "'o option" "string list"
  | is_from_documents: From_documents_call "'o option" "'o list"
  | is_as_query_engine: As_query_engine_call "'o option" 'o int
  | is_aquery: AQuery_call "'o option" 'o string
  | is_sub_question: SubQuestion_call "'o option" "'o query_engine_tool list"
  | is_print: Print string

record 'o kernel =
  v_llm :: "'o option"
  v_service_context :: "'o option"
  v_lyft_docs :: "'o list option"
  v_uber_docs :: "'o list option"
  v_lyft_index :: "'o option"
  v_uber_index :: "'o option"
  v_lyft_engine :: "'o option"
  v_uber_engine :: "'o option"
  v_response :: "'o option"
  v_query_engine_tools :: "'o query_engine_tool list option"
  v_s_engine :: "'o option"
  global_service_context :: "'o option"
  trace :: "'o event list"

definition init_kernel :: "'o kernel" where
  "init_kernel =
     \<lparr>v_llm = None, v_service_context = None, v_lyft_docs = None, v_uber_docs = None,
      v_lyft_index = None, v_uber_index = None, v_lyft_engine = None,
      v_uber_engine = None, v_response = None, v_query_engine_tools = None,
      v_s_engine = None, global_service_context = None, trace = []\<rparr>"

subsection \<open>Statements\<close>

type_synonym 'o stmt = "'o kernel \<Rightarrow> 'o kernel \<times> exn option"

definition log :: "'o event \<Rightarrow> 'o kernel \<Rightarrow> 'o kernel" where
  "log ev k = k\<lparr>trace := trace k @ [ev]\<rparr>"

text \<open>A call that cannot raise in the model: the shell escape, the setter of the
  global default, \<^verbatim>\<open>print\<close>.\<close>

definition effect :: "'o event \<Rightarrow> ('o kernel \<Rightarrow> 'o kernel) \<Rightarrow> 'o stmt" where
  "effect ev upd k = (upd (log ev k), None)"

text \<open>A call into the framework: it is recorded, and either its exception ends the
  statement or its result is bound.\<close>

definition call :: "'o event \<Rightarrow> exn + 'a \<Rightarrow> ('a \<Rightarrow> 'o kernel \<Rightarrow> 'o kernel) \<Rightarrow> 'o stmt" where
  "call ev res bind k =
     (case res of
        Inl e \<Rightarrow> (log ev k, Some e)
      | Inr v \<Rightarrow> (bind v (log ev k), None))"

text \<open>Reading a top-level name: unbound, Python raises \<^verbatim>\<open>NameError\<close>.\<close>

definition read :: "('o kernel \<Rightarrow> 'a option) \<Rightarrow> string \<Rightarrow> ('a \<Rightarrow> 'o stmt) \<Rightarrow> 'o stmt" where
  "read var nm body k =
     (case var k of
        None \<Rightarrow> (k, Some (NameError nm))
      | Some v \<Rightarrow> body v k)"

fun run :: "'o stmt list \<Rightarrow> 'o kernel \<Rightarrow> 'o kernel \<times> exn option" where
  "run [] k = (k, None)"
| "run (s # ss) k =
     (case s k of
        (k', Some e) \<Rightarrow> (k', Some e)
      | (k', None) \<Rightarrow> run ss k')"

text \<open>Decimal rendering of \<^verbatim>\<open>len(...)\<close> inside an f-string.\<close>

fun show_nat :: "nat \<Rightarrow> string" where
  "show_nat n =
     (if n < 10 then [''0123456789'' ! n]
      else show_nat (n div 10) @ [''0123456789'' ! (n mod 10)])"

declare show_nat.simps [simp del]

subsection \<open>The notebook, statement by statement\<close>

definition line_98 :: "'o stmt" where
  "line_98 = effect (Shell ''pip install llama-index pypdf'') id"

definition import_stmt :: "'o framework \<Rightarrow> string \<Rightarrow> string list \<Rightarrow> 'o stmt" where
  "import_stmt fw m ns k =
     (case import_from fw m ns of
        Some e \<Rightarrow> (log (Import_from m ns) k, Some e)
      | None \<Rightarrow> (log (Import_from m ns) k, None))"

definition line_119 :: "'o framework \<Rightarrow> 'o stmt" where
  "line_119 fw = import_stmt fw ''langchain'' [''OpenAI'']"

definition line_121 :: "'o framework \<Rightarrow> 'o stmt" where
  "line_121 fw = import_stmt fw ''llama_index''
     [''SimpleDirectoryReader'', ''ServiceContext'', ''VectorStoreIndex'']"

definition line_122 :: "'o framework \<Rightarrow> 'o stmt" where
  "line_122 fw = import_stmt fw ''llama_index'' [''set_global_service_context'']"

definition line_123 :: "'o framework \<Rightarrow> 'o stmt" where
  "line_123 fw = import_stmt fw ''llama_index.response.pprint_utils'' [''pprint_response'']"

definition line_124 :: "'o framework \<Rightarrow> 'o stmt" where
  "line_124 fw = import_stmt fw ''llama_index.tools'' [''QueryEngineTool'', ''ToolMetadata'']"

definition line_125 :: "'o framework \<Rightarrow> 'o stmt" where
  "line_125 fw = import_stmt fw ''llama_index.query_engine'' [''SubQuestionQueryEngine'']"

definition the_llm_args :: llm_args where
  "the_llm_args =
     \<lparr>temperature = 0, model_name = ''gpt-3.5-turbo-instruct'', max_tokens = - 1\<rparr>"

definition line_149 :: "'o framework \<Rightarrow> 'o stmt" where
  "line_149 fw =
     call (OpenAI_call the_llm_args) (OpenAI fw the_llm_args)
       (\<lambda>v k. k\<lparr>v_llm := Some v\<rparr>)"

definition line_170 :: "'o framework \<Rightarrow> 'o stmt" where
  "line_170 fw =
     read v_llm ''llm'' (\<lambda>llm k.
       call (ServiceContext_call (global_service_context k) llm)
         (ServiceContext_from_defaults fw (global_service_context k) llm)
         (\<lambda>v k. k\<lparr>v_service_context := Some v\<rparr>) k)"

definition line_171 :: "'o stmt" where
  "line_171 =
     read v_service_context ''service_context'' (\<lambda>sc.
       effect (Set_global_call sc) (\<lambda>k. k\<lparr>global_service_context := Some sc\<rparr>))"

definition lyft_pdf :: string where
  "lyft_pdf = ''../data/10k/lyft_2021.pdf''"

definition uber_pdf :: string where
  "uber_pdf = ''../data/10k/uber_2021.pdf''"

definition line_208 :: "'o framework \<Rightarrow> 'o stmt" where
  "line_208 fw k =
     call (Load_data_call (global_service_context k) [lyft_pdf])
       (SimpleDirectoryReader_load_data fw (global_service_context k) [lyft_pdf])
       (\<lambda>v k. k\<lparr>v_lyft_docs := Some v\<rparr>) k"

definition line_209 :: "'o framework \<Rightarrow> 'o stmt" where
  "line_209 fw k =
     call (Load_data_call (global_service_context k) [uber_pdf])
       (SimpleDirectoryReader_load_data fw (global_service_context k) [uber_pdf])
       (\<lambda>v k. k\<lparr>v_uber_docs := Some v\<rparr>) k"

definition line_230 :: "'o stmt" where
  "line_230 =
     read v_lyft_docs ''lyft_docs'' (\<lambda>docs.
       effect (Print (''Loaded lyft 10-K with '' @ show_nat (length docs) @ '' pages'')) id)"

definition line_231 :: "'o stmt" where
  "line_231 =
     read v_uber_docs ''uber_docs'' (\<lambda>docs.
       effect (Print (''Loaded Uber 10-K with '' @ show_nat (length docs) @ '' pages'')) id)"

definition line_254 :: "'o framework \<Rightarrow> 'o stmt" where
  "line_254 fw =
     read v_lyft_docs ''lyft_docs'' (\<lambda>docs k.
       call (From_documents_call (global_service_context k) docs)
         (VectorStoreIndex_from_documents fw (global_service_context k) docs)
         (\<lambda>v k. k\<lparr>v_lyft_index := Some v\<rparr>) k)"

definition line_255 :: "'o framework \<Rightarrow> 'o stmt" where
  "line_255 fw =
     read v_uber_docs ''uber_docs'' (\<lambda>docs k.
       call (From_documents_call (global_service_context k) docs)
         (VectorStoreIndex_from_documents fw (global_service_context k) docs)
         (\<lambda>v k. k\<lparr>v_uber_index := Some v\<rparr>) k)"

definition line_292 :: "'o framework \<Rightarrow> 'o stmt" where
  "line_292 fw =
     read v_lyft_index ''lyft_index'' (\<lambda>ix k.
       call (As_query_engine_call (global_service_context k) ix 3)
         (as_query_engine fw (global_service_context k) ix 3)
         (\<lambda>v k. k\<lparr>v_lyft_engine := Some v\<rparr>) k)"

definition line_304 :: "'o framework \<Rightarrow> 'o stmt" where
  "line_304 fw =
     read v_uber_index ''uber_index'' (\<lambda>ix k.
       call (As_query_engine_call (global_service_context k) ix 3)
         (as_query_engine fw (global_service_context k) ix 3)
         (\<lambda>v k. k\<lparr>v_uber_engine := Some v\<rparr>) k)"

definition query_stmt ::
  "'o framework \<Rightarrow> ('o kernel \<Rightarrow> 'o option) \<Rightarrow> string \<Rightarrow> string \<Rightarrow> 'o stmt" where
  "query_stmt fw var nm q =
     read var nm (\<lambda>eng k.
       call (AQuery_call (global_service_context k) eng q)
         (aquery fw (global_service_context k) eng q)
         (\<lambda>v k. k\<lparr>v_response := Some v\<rparr>) k)"

definition lyft_question :: string where
  "lyft_question =
     ''What is the revenue of Lyft in 2021? Answer in millions with page reference''"

definition uber_question :: string where
  "uber_question =
     ''What is the revenue of Uber in 2021? Answer in millions, with page reference''"

definition line_327 :: "'o framework \<Rightarrow> 'o stmt" where
  "line_327 fw = query_stmt fw v_lyft_engine ''lyft_engine'' lyft_question"

definition print_response :: "'o framework \<Rightarrow> 'o stmt" where
  "print_response fw =
     read v_response ''response'' (\<lambda>r. effect (Print (str_of fw r)) id)"

definition line_360 :: "'o framework \<Rightarrow> 'o stmt" where
  "line_360 fw = query_stmt fw v_uber_engine ''uber_engine'' uber_question"

definition lyft_tool :: "'o \<Rightarrow> 'o query_engine_tool" where
  "lyft_tool eng =
     \<lparr>query_engine = eng,
      metadata = \<lparr>name = ''lyft_10k'',
        description = ''Provides information about Lyft financials for year 2021''\<rparr>\<rparr>"

definition uber_tool :: "'o \<Rightarrow> 'o query_engine_tool" where
  "uber_tool eng =
     \<lparr>query_engine = eng,
      metadata = \<lparr>name = ''uber_10k'',
        description = ''Provides information about Uber financials for year 2021''\<rparr>\<rparr>"

definition line_418 :: "'o stmt" where
  "line_418 =
     read v_lyft_engine ''lyft_engine'' (\<lambda>le.
       read v_uber_engine ''uber_engine'' (\<lambda>ue k.
         (k\<lparr>v_query_engine_tools := Some [lyft_tool le, uber_tool ue]\<rparr>, None)))"

definition line_429 :: "'o framework \<Rightarrow> 'o stmt" where
  "line_429 fw =
     read v_query_engine_tools ''query_engine_tools'' (\<lambda>tools k.
       call (SubQuestion_call (global_service_context k) tools)
         (SubQuestionQueryEngine_from_defaults fw (global_service_context k) tools)
         (\<lambda>v k. k\<lparr>v_s_engine := Some v\<rparr>) k)"

definition segments_question :: string where
  "segments_question =
     ''Compare and contrast the customer segments and geographies that grew the fastest''"

definition growth_question :: string where
  "growth_question = ''Compare revenue growth of Uber and Lyft from 2020 to 2021''"

definition line_474 :: "'o framework \<Rightarrow> 'o stmt" where
  "line_474 fw = query_stmt fw v_s_engine ''s_engine'' segments_question"

definition line_526 :: "'o framework \<Rightarrow> 'o stmt" where
  "line_526 fw = query_stmt fw v_s_engine ''s_engine'' growth_question"

text \<open>The code cells in the order of the file; \<open>print_response\<close> stands at lines
  348, 381, 499 and 547.\<close>

definition setup_cells :: "'o framework \<Rightarrow> 'o stmt list" where
  "setup_cells fw =
     [line_98, line_119 fw, line_121 fw, line_122 fw, line_123 fw, line_124 fw,
      line_125 fw, line_149 fw, line_170 fw, line_171]"

definition indexing_cells :: "'o framework \<Rightarrow> 'o stmt list" where
  "indexing_cells fw =
     [line_208 fw, line_209 fw, line_230, line_231, line_254 fw, line_255 fw]"

definition simple_qa_cells :: "'o framework \<Rightarrow> 'o stmt list" where
  "simple_qa_cells fw =
     [line_292 fw, line_304 fw, line_327 fw, print_response fw, line_360 fw,
      print_response fw]"

definition advanced_qa_cells :: "'o framework \<Rightarrow> 'o stmt list" where
  "advanced_qa_cells fw =
     [line_418, line_429 fw, line_474 fw, print_response fw, line_526 fw,
      print_response fw]"

definition notebook :: "'o framework \<Rightarrow> 'o stmt list" where
  "notebook fw =
     setup_cells fw @ indexing_cells fw @ simple_qa_cells fw @ advanced_qa_cells fw"

definition run_notebook :: "'o framework \<Rightarrow> 'o kernel \<times> exn option" where
  "run_notebook fw = run (notebook fw) init_kernel"

text \<open>The kernel after the first \<open>n\<close> statements, as when the cells are run one by
  one from the top.\<close>

definition run_to :: "nat \<Rightarrow> 'o framework \<Rightarrow> 'o kernel \<times> exn option" where
  "run_to n fw = run (take n (notebook fw)) init_kernel"

subsection \<open>Observing a run\<close>

text \<open>The default service context a llama_index call was made under (\<open>None\<close> inside
  \<open>Some\<close>: no default installed yet). Calls outside llama_index have none.\<close>

fun config_of :: "'o event \<Rightarrow> 'o option option" where
  "config_of (ServiceContext_call g _) = Some g"
| "config_of (Load_data_call g _) = Some g"
| "config_of (From_documents_call g _) = Some g"
| "config_of (As_query_engine_call g _ _) = Some g"
| "config_of (AQuery_call g _ _) = Some g"
| "config_of (SubQuestion_call g _) = Some g"
| "config_of _ = None"

text \<open>The exception the framework raises when asked what the event records.\<close>

definition failure :: "exn + 'a \<Rightarrow> exn option" where
  "failure res = (case res of Inl e \<Rightarrow> Some e | Inr _ \<Rightarrow> None)"

fun raised :: "'o framework \<Rightarrow> 'o event \<Rightarrow> exn option" where
  "raised fw (Shell _) = None"
| "raised fw (Import_from m ns) = import_from fw m ns"
| "raised fw (OpenAI_call a) = failure (OpenAI fw a)"
| "raised fw (ServiceContext_call g llm) = failure (ServiceContext_from_defaults fw g llm)"
| "raised fw (Set_global_call _) = None"
| "raised fw (Load_data_call g fs) = failure (SimpleDirectoryReader_load_data fw g fs)"
| "raised fw (From_documents_call g docs) = failure (VectorStoreIndex_from_documents fw g docs)"
| "raised fw (As_query_engine_call g ix n) = failure (as_query_engine fw g ix n)"
| "raised fw (AQuery_call g eng q) = failure (aquery fw g eng q)"
| "raised fw (SubQuestion_call g tools) =
     failure (SubQuestionQueryEngine_from_defaults fw g tools)"
| "raised fw (Print _) = None"

text \<open>A run's events and its outcome agree with the framework: with no exception,
  nothing the program asked for raised; with exception \<open>e\<close>, the last thing asked
  for raised \<open>e\<close> and nothing before it raised.\<close>

definition faithful :: "'o framework \<Rightarrow> 'o event list \<Rightarrow> exn option \<Rightarrow> bool" where
  "faithful fw evs r =
     (case r of
        None \<Rightarrow> list_all (\<lambda>ev. raised fw ev = None) evs
      | Some e \<Rightarrow> evs \<noteq> [] \<and> raised fw (last evs) = Some e \<and>
          list_all (\<lambda>ev. raised fw ev = None) (butlast evs))"

text \<open>The same framework over a file system where \<open>path\<close> holds other documents.\<close>

definition with_documents :: "'o framework \<Rightarrow> string \<Rightarrow> 'o list \<Rightarrow> 'o framework" where
  "with_documents fw path docs =
     fw\<lparr>SimpleDirectoryReader_load_data :=
          \<lambda>g fs. if fs = [path] then Inr docs
                 else SimpleDirectoryReader_load_data fw g fs\<rparr>"

subsection \<open>A small framework to run the notebook on\<close>

text \<open>Objects are numbers. Each PDF loads as a list of pages; an index, an engine and
  a response are numbered after what they were made from.\<close>

definition demo_framework :: "nat framework" where
  "demo_framework =
     \<lparr>import_from = (\<lambda>m ns. None),
      OpenAI = (\<lambda>a. Inr 1),
      ServiceContext_from_defaults = (\<lambda>g llm. Inr (llm + 1)),
      SimpleDirectoryReader_load_data =
        (\<lambda>g fs. if fs = [lyft_pdf] then Inr [10, 11]
                else if fs = [uber_pdf] then Inr [20, 21, 22]
                else Inl (FrameworkError ''File does not exist'')),
      VectorStoreIndex_from_documents =
        (\<lambda>g docs. case docs of
                     [] \<Rightarrow> Inl (FrameworkError ''no documents'')
                   | d # ds \<Rightarrow> Inr (100 + d)),
      as_query_engine = (\<lambda>g ix n. Inr (1000 + ix)),
      aquery = (\<lambda>g eng q. Inr (10000 + eng)),
      SubQuestionQueryEngine_from_defaults =
        (\<lambda>g tools. Inr (sum_list (map query_engine tools))),
      str_of = show_nat\<rparr>"

text \<open>The same, with no Uber filing on disk.\<close>

definition demo_no_uber :: "nat framework" where
  "demo_no_uber =
     demo_framework\<lparr>SimpleDirectoryReader_load_data :=
        (\<lambda>g fs. if fs = [lyft_pdf] then Inr [10, 11]
                else Inl (FrameworkError ''File does not exist''))\<rparr>"

text \<open>Where the run on \<open>demo_framework\<close> ends.\<close>

definition demo_kernel :: "nat kernel" where
  "demo_kernel =
     \<lparr>v_llm = Some 1, v_service_context = Some 2, v_lyft_docs = Some [10, 11],
      v_uber_docs = Some [20, 21, 22], v_lyft_index = Some 110, v_uber_index = Some 120,
      v_lyft_engine = Some 1110, v_uber_engine = Some 1120, v_response = Some 12230,
      v_query_engine_tools = Some [lyft_tool 1110, uber_tool 1120],
      v_s_engine = Some 2230, global_service_context = Some 2,
      trace =
        [Shell ''pip install llama-index pypdf'',
         Import_from ''langchain'' [''OpenAI''],
         Import_from ''llama_index''
           [''SimpleDirectoryReader'', ''ServiceContext'', ''VectorStoreIndex''],
         Import_from ''llama_index'' [''set_global_service_context''],
         Import_from ''llama_index.response.pprint_utils'' [''pprint_response''],
         Import_from ''llama_index.tools'' [''QueryEngineTool'', ''ToolMetadata''],
         Import_from ''llama_index.query_engine'' [''SubQuestionQueryEngine''],
         OpenAI_call the_llm_args,
         ServiceContext_call None 1,
         Set_global_call 2,
         Load_data_call (Some 2) [lyft_pdf],
         Load_data_call (Some 2) [uber_pdf],
         Print ''Loaded lyft 10-K with 2 pages'',
         Print ''Loaded Uber 10-K with 3 pages'',
         From_documents_call (Some 2) [10, 11],
         From_documents_call (Some 2) [20, 21, 22],
         As_query_engine_call (Some 2) 110 3,
         As_query_engine_call (Some 2) 120 3,
         AQuery_call (Some 2) 1110 lyft_question,
         Print ''11110'',
         AQuery_call (Some 2) 1120 uber_question,
         Print ''11120'',
         SubQuestion_call (Some 2) [lyft_tool 1110, uber_tool 1120],
         AQuery_call (Some 2) 2230 segments_question,
         Print ''12230'',
         AQuery_call (Some 2) 2230 growth_question,
         Print ''12230'']\<rparr>"

text \<open>
  Asking an engine any question \<open>q\<close> in place of the notebook's own: the statements
  above the query cell run as they stand, then the query statement with \<open>q\<close>. Lines
  327 and 360 are the instances at the notebook's two questions.
\<close>

definition ask_lyft :: "'o framework \<Rightarrow> string \<Rightarrow> 'o kernel \<times> exn option" where
  "ask_lyft fw q =
     run (take 18 (notebook fw) @ [query_stmt fw v_lyft_engine ''lyft_engine'' q])
       init_kernel"

definition ask_uber :: "'o framework \<Rightarrow> string \<Rightarrow> 'o kernel \<times> exn option" where
  "ask_uber fw q =
     run (take 20 (notebook fw) @ [query_stmt fw v_uber_engine ''uber_engine'' q])
       init_kernel"

text \<open>
  What the framework hands back over a run that reaches the end, one field per call
  whose result the notebook binds; \<open>produced\<close> says that the framework does return
  these, and \<open>final_kernel\<close> is the kernel the run then ends in.
\<close>

record 'o results =
  r_llm :: 'o
  r_service_context :: 'o
  r_lyft_docs :: "'o list"
  r_uber_docs :: "'o list"
  r_lyft_index :: 'o
  r_uber_index :: 'o
  r_lyft_engine :: 'o
  r_uber_engine :: 'o
  r_lyft_answer :: 'o
  r_uber_answer :: 'o
  r_s_engine :: 'o
  r_segments_answer :: 'o
  r_growth_answer :: 'o

definition produced :: "'o framework \<Rightarrow> 'o results \<Rightarrow> bool" where
  "produced fw x =
     (let g = Some (r_service_context x) in
      OpenAI fw the_llm_args = Inr (r_llm x) \<and>
      ServiceContext_from_defaults fw None (r_llm x) = Inr (r_service_context x) \<and>
      SimpleDirectoryReader_load_data fw g [lyft_pdf] = Inr (r_lyft_docs x) \<and>
      SimpleDirectoryReader_load_data fw g [uber_pdf] = Inr (r_uber_docs x) \<and>
      VectorStoreIndex_from_documents fw g (r_lyft_docs x) = Inr (r_lyft_index x) \<and>
      VectorStoreIndex_from_documents fw g (r_uber_docs x) = Inr (r_uber_index x) \<and>
      as_query_engine fw g (r_lyft_index x) 3 = Inr (r_lyft_engine x) \<and>
      as_query_engine fw g (r_uber_index x) 3 = Inr (r_uber_engine x) \<and>
      aquery fw g (r_lyft_engine x) lyft_question = Inr (r_lyft_answer x) \<and>
      aquery fw g (r_uber_engine x) uber_question = Inr (r_uber_answer x) \<and>
      SubQuestionQueryEngine_from_defaults fw g
        [lyft_tool (r_lyft_engine x), uber_tool (r_uber_engine x)] = Inr (r_s_engine x) \<and>
      aquery fw g (r_s_engine x) segments_question = Inr (r_segments_answer x) \<and>
      aquery fw g (r_s_engine x) growth_question = Inr (r_growth_answer x))"

definition final_kernel :: "'o framework \<Rightarrow> 'o results \<Rightarrow> 'o kernel" where
  "final_kernel fw x =
     (let g = Some (r_service_context x) in
      \<lparr>v_llm = Some (r_llm x), v_service_context = g,
       v_lyft_docs = Some (r_lyft_docs x), v_uber_docs = Some (r_uber_docs x),
       v_lyft_index = Some (r_lyft_index x), v_uber_index = Some (r_uber_index x),
       v_lyft_engine = Some (r_lyft_engine x), v_uber_engine = Some (r_uber_engine x),
       v_response = Some (r_growth_answer x),
       v_query_engine_tools =
         Some [lyft_tool (r_lyft_engine x), uber_tool (r_uber_engine x)],
       v_s_engine = Some (r_s_engine x), global_service_context = g,
       trace =
         [Shell ''pip install llama-index pypdf'',
          Import_from ''langchain'' [''OpenAI''],
          Import_from ''llama_index''
            [''SimpleDirectoryReader'', ''ServiceContext'', ''VectorStoreIndex''],
          Import_from ''llama_index'' [''set_global_service_context''],
          Import_from ''llama_index.response.pprint_utils'' [''pprint_response''],
          Import_from ''llama_index.tools'' [''QueryEngineTool'', ''ToolMetadata''],
          Import_from ''llama_index.query_engine'' [''SubQuestionQueryEngine''],
          OpenAI_call the_llm_args,
          ServiceContext_call None (r_llm x),
          Set_global_call (r_service_context x),
          Load_data_call g [lyft_pdf],
          Load_data_call g [uber_pdf],
          Print (''Loaded lyft 10-K with '' @ show_nat (length (r_lyft_docs x)) @ '' pages''),
          Print (''Loaded Uber 10-K with '' @ show_nat (length (r_uber_docs x)) @ '' pages''),
          From_documents_call g (r_lyft_docs x),
          From_documents_call g (r_uber_docs x),
          As_query_engine_call g (r_lyft_index x) 3,
          As_query_engine_call g (r_uber_index x) 3,
          AQuery_call g (r_lyft_engine x) lyft_question,
          Print (str_of fw (r_lyft_answer x)),
          AQuery_call g (r_uber_engine x) uber_question,
          Print (str_of fw (r_uber_answer x)),
          SubQuestion_call g [lyft_tool (r_lyft_engine x), uber_tool (r_uber_engine x)],
          AQuery_call g (r_s_engine x) segments_question,
          Print (str_of fw (r_segments_answer x)),
          AQuery_call g (r_s_engine x) growth_question,
          Print (str_of fw (r_growth_answer x))]\<rparr>)"

section \<open>Properties of the notebook\<close>

lemmas line_defs = line_98_def line_119_def line_121_def line_122_def line_123_def line_124_def
  line_125_def line_149_def line_170_def line_171_def line_208_def line_209_def line_230_def
  line_231_def line_254_def line_255_def line_292_def line_304_def line_327_def line_360_def
  line_418_def line_429_def line_474_def line_526_def print_response_def query_stmt_def
  import_stmt_def

lemmas nb_defs = notebook_def setup_cells_def indexing_cells_def
  simple_qa_cells_def advanced_qa_cells_def

lemmas step_defs = call_def read_def effect_def log_def

subsection \<open>Running a list of statements\<close>

lemma run_append:
  "run (ss @ ts) k =
     (case run ss k of (k', Some e) \<Rightarrow> (k', Some e) | (k', None) \<Rightarrow> run ts k')"
  by (induction ss arbitrary: k) (auto split: prod.splits option.splits)

lemma faithful_append:
  "faithful fw evs None \<Longrightarrow> faithful fw evs' r \<Longrightarrow> faithful fw (evs @ evs') r"
  by (cases r) (auto simp: faithful_def butlast_append)

lemma faithful_raised:
  assumes "faithful fw evs r" and "ev \<in> set evs" and "raised fw ev = Some e"
  shows "r = Some e"
proof (cases r)
  case None
  with assms show ?thesis by (auto simp: faithful_def list_all_iff)
next
  case (Some e')
  with assms(1) have ne: "evs \<noteq> []" and l: "raised fw (last evs) = Some e'"
    and b: "\<forall>x\<in>set (butlast evs). raised fw x = None"
    by (auto simp: faithful_def list_all_iff)
  from ne have "evs = butlast evs @ [last evs]" by simp
  then have "set evs = set (butlast evs) \<union> {last evs}"
    by (metis list.set(1) list.simps(15) set_append)
  with assms(2) b assms(3) have "ev = last evs" by auto
  with l assms(3) Some show ?thesis by simp
qed

subsection \<open>Each part of the notebook agrees with the framework\<close>

lemma setup_faithful:
  assumes "run (setup_cells fw) k0 = (k, r)"
  shows "\<exists>evs. trace k = trace k0 @ evs \<and> faithful fw evs r"
  using assms unfolding setup_cells_def line_defs
  by (auto simp: step_defs faithful_def failure_def split: sum.splits option.splits)

lemma indexing_faithful:
  assumes "run (indexing_cells fw) k0 = (k, r)"
  shows "\<exists>evs. trace k = trace k0 @ evs \<and> faithful fw evs r \<and>
     (r = None \<longrightarrow> v_lyft_index k \<noteq> None \<and> v_uber_index k \<noteq> None)"
  using assms unfolding indexing_cells_def line_defs
  by (auto simp: step_defs faithful_def failure_def split: sum.splits option.splits)

lemma simple_qa_faithful:
  assumes "run (simple_qa_cells fw) k0 = (k, r)"
    and "v_lyft_index k0 \<noteq> None" and "v_uber_index k0 \<noteq> None"
  shows "\<exists>evs. trace k = trace k0 @ evs \<and> faithful fw evs r \<and>
     (r = None \<longrightarrow> v_lyft_engine k \<noteq> None \<and> v_uber_engine k \<noteq> None)"
  using assms unfolding simple_qa_cells_def line_defs
  by (auto simp: step_defs faithful_def failure_def split: sum.splits option.splits)

lemma advanced_qa_faithful:
  assumes "run (advanced_qa_cells fw) k0 = (k, r)"
    and "v_lyft_engine k0 \<noteq> None" and "v_uber_engine k0 \<noteq> None"
  shows "\<exists>evs. trace k = trace k0 @ evs \<and> faithful fw evs r"
  using assms unfolding advanced_qa_cells_def line_defs
  by (auto simp: step_defs faithful_def failure_def split: sum.splits option.splits)

lemma notebook_faithful:
  assumes "run_notebook fw = (k, r)"
  shows "faithful fw (trace k) r"
proof -
  obtain k1 r1 where s1: "run (setup_cells fw) init_kernel = (k1, r1)"
    by (cases "run (setup_cells fw) init_kernel")
  from setup_faithful [OF s1] have f1: "faithful fw (trace k1) r1"
    by (simp add: init_kernel_def)
  show ?thesis
  proof (cases r1)
    case (Some e)
    with assms s1 f1 show ?thesis
      by (simp add: run_notebook_def notebook_def run_append)
  next
    case n1: None
    obtain k2 r2 where s2: "run (indexing_cells fw) k1 = (k2, r2)"
      by (cases "run (indexing_cells fw) k1")
    from indexing_faithful [OF s2] obtain e2 where t2: "trace k2 = trace k1 @ e2"
      and g2: "faithful fw e2 r2"
      and b2: "r2 = None \<longrightarrow> v_lyft_index k2 \<noteq> None \<and> v_uber_index k2 \<noteq> None"
      by blast
    from f1 n1 g2 t2 have f2: "faithful fw (trace k2) r2"
      by (simp add: faithful_append)
    show ?thesis
    proof (cases r2)
      case (Some e)
      with assms s1 n1 s2 f2 show ?thesis
        by (simp add: run_notebook_def notebook_def run_append)
    next
      case n2: None
      obtain k3 r3 where s3: "run (simple_qa_cells fw) k2 = (k3, r3)"
        by (cases "run (simple_qa_cells fw) k2")
      from simple_qa_faithful [OF s3] b2 n2 obtain e3 where t3: "trace k3 = trace k2 @ e3"
        and g3: "faithful fw e3 r3"
        and b3: "r3 = None \<longrightarrow> v_lyft_engine k3 \<noteq> None \<and> v_uber_engine k3 \<noteq> None"
        by blast
      from f2 n2 g3 t3 have f3: "faithful fw (trace k3) r3"
        by (simp add: faithful_append)
      show ?thesis
      proof (cases r3)
        case (Some e)
        with assms s1 n1 s2 n2 s3 f3 show ?thesis
          by (simp add: run_notebook_def notebook_def run_append)
      next
        case n3: None
        obtain k4 r4 where s4: "run (advanced_qa_cells fw) k3 = (k4, r4)"
          by (cases "run (advanced_qa_cells fw) k3")
        from advanced_qa_faithful [OF s4] b3 n3 obtain e4 where t4: "trace k4 = trace k3 @ e4"
          and g4: "faithful fw e4 r4"
          by blast
        from f3 n3 g4 t4 have f4: "faithful fw (trace k4) r4"
          by (simp add: faithful_append)
        from assms s1 n1 s2 n2 s3 n3 s4 have "k = k4 \<and> r = r4"
          by (simp add: run_notebook_def notebook_def run_append)
        with f4 show ?thesis by simp
      qed
    qed
  qed
qed

lemma demo_no_uber_run:
  "snd (run_notebook demo_no_uber) = Some (FrameworkError ''File does not exist'')"
  unfolding run_notebook_def nb_defs line_defs
  by (simp add: step_defs init_kernel_def demo_no_uber_def demo_framework_def
      lyft_pdf_def uber_pdf_def)

subsection \<open>A run that reaches the end\<close>

lemma complete_run_objects:
  assumes "run_notebook fw = (k, None)"
  shows "\<exists>llm sc ld ud li ui le ue r1 r2 se r3 r4.
     (let x = \<lparr>r_llm = llm, r_service_context = sc, r_lyft_docs = ld, r_uber_docs = ud,
        r_lyft_index = li, r_uber_index = ui, r_lyft_engine = le, r_uber_engine = ue,
        r_lyft_answer = r1, r_uber_answer = r2, r_s_engine = se,
        r_segments_answer = r3, r_growth_answer = r4\<rparr>
      in produced fw x \<and> k = final_kernel fw x)"
  using assms
  unfolding run_notebook_def nb_defs line_defs
  by (auto simp: step_defs init_kernel_def produced_def final_kernel_def Let_def
      split: sum.splits option.splits)

lemma complete_run:
  assumes "run_notebook fw = (k, None)"
  shows "\<exists>x. produced fw x \<and> k = final_kernel fw x"
  using complete_run_objects [OF assms] unfolding Let_def by blast

subsection \<open>The run on the demonstration framework\<close>

lemma show_nat_small:
  "show_nat (Suc (Suc 0)) = ''2''" "show_nat (Suc (Suc (Suc 0))) = ''3''"
  by (subst show_nat.simps, simp add: numeral_2_eq_2 numeral_3_eq_3)+

lemma show_nat_demo:
  "show_nat 11110 = ''11110''" "show_nat 11120 = ''11120''" "show_nat 12230 = ''12230''"
  by (simp_all add: show_nat.simps)

lemma demo_run: "run_notebook demo_framework = (demo_kernel, None)"
  unfolding run_notebook_def nb_defs line_defs
  by (simp add: step_defs init_kernel_def demo_framework_def demo_kernel_def
      lyft_pdf_def uber_pdf_def lyft_tool_def uber_tool_def show_nat_small show_nat_demo)

subsection \<open>Asking one engine\<close>

lemma ask_lyft_notebook: "ask_lyft fw lyft_question = run_to 19 fw"
  by (simp add: ask_lyft_def run_to_def nb_defs line_327_def)

lemma ask_uber_notebook: "ask_uber fw uber_question = run_to 21 fw"
  by (simp add: ask_uber_def run_to_def nb_defs line_360_def)

lemma ask_lyft_answer:
  assumes "ask_lyft fw q = (k, None)"
  shows "\<exists>llm sc ld li le r.
     OpenAI fw the_llm_args = Inr llm \<and>
     ServiceContext_from_defaults fw None llm = Inr sc \<and>
     SimpleDirectoryReader_load_data fw (Some sc) [lyft_pdf] = Inr ld \<and>
     VectorStoreIndex_from_documents fw (Some sc) ld = Inr li \<and>
     as_query_engine fw (Some sc) li 3 = Inr le \<and>
     aquery fw (Some sc) le q = Inr r \<and>
     v_response k = Some r"
  using assms
  unfolding ask_lyft_def nb_defs line_defs
  by (auto simp: step_defs init_kernel_def split: sum.splits option.splits)

lemma ask_uber_answer:
  assumes "ask_uber fw q = (k, None)"
  shows "\<exists>llm sc ud ui ue r.
     OpenAI fw the_llm_args = Inr llm \<and>
     ServiceContext_from_defaults fw None llm = Inr sc \<and>
     SimpleDirectoryReader_load_data fw (Some sc) [uber_pdf] = Inr ud \<and>
     VectorStoreIndex_from_documents fw (Some sc) ud = Inr ui \<and>
     as_query_engine fw (Some sc) ui 3 = Inr ue \<and>
     aquery fw (Some sc) ue q = Inr r \<and>
     v_response k = Some r"
  using assms
  unfolding ask_uber_def nb_defs line_defs
  by (auto simp: step_defs init_kernel_def split: sum.splits option.splits)

lemma with_documents_other:
  "p \<noteq> p' \<Longrightarrow>
   SimpleDirectoryReader_load_data (with_documents fw p docs) g [p'] =
     SimpleDirectoryReader_load_data fw g [p']"
  by (simp add: with_documents_def)

lemma with_documents_fields:
  "OpenAI (with_documents fw p docs) = OpenAI fw"
  "ServiceContext_from_defaults (with_documents fw p docs) = ServiceContext_from_defaults fw"
  "VectorStoreIndex_from_documents (with_documents fw p docs) =
     VectorStoreIndex_from_documents fw"
  "as_query_engine (with_documents fw p docs) = as_query_engine fw"
  "aquery (with_documents fw p docs) = aquery fw"
  by (simp_all add: with_documents_def)

lemma pdfs_differ: "uber_pdf \<noteq> lyft_pdf" "lyft_pdf \<noteq> uber_pdf"
  by (simp_all add: lyft_pdf_def uber_pdf_def)

subsection \<open>Failures\<close>

text \<open>
  C2. No statement of the notebook guards, retries or recovers from a call. Whatever
  the framework does: an exception raised by anything the program asked for is the
  outcome of the run; a run that ends with exception \<open>e\<close> ends right after the
  call that raised \<open>e\<close>, every earlier call having been made once and having
  succeeded; a run that ends without exception made no call that raised. In particular
  the exception is the framework's own value, and the program never raises one itself.
\<close>

theorem failures_propagate_unhandled:
  assumes "run_notebook fw = (k, r)"
  shows "(\<forall>ev\<in>set (trace k). \<forall>e. raised fw ev = Some e \<longrightarrow> r = Some e) \<and>
     (case r of
        None \<Rightarrow> list_all (\<lambda>ev. raised fw ev = None) (trace k)
      | Some e \<Rightarrow> trace k \<noteq> [] \<and> raised fw (last (trace k)) = Some e \<and>
          list_all (\<lambda>ev. raised fw ev = None) (butlast (trace k)))"
proof -
  from assms have f: "faithful fw (trace k) r"
    by (rule notebook_faithful)
  then have "\<forall>ev\<in>set (trace k). \<forall>e. raised fw ev = Some e \<longrightarrow> r = Some e"
    by (blast intro: faithful_raised)
  with f show ?thesis
    by (simp add: faithful_def)
qed

theorem failures_propagate_unhandled_witness:
  "snd (run_notebook demo_no_uber) = Some (FrameworkError ''File does not exist'') \<and>
   trace (fst (run_notebook demo_no_uber)) \<noteq> [] \<and>
   raised demo_no_uber (last (trace (fst (run_notebook demo_no_uber)))) =
     Some (FrameworkError ''File does not exist'') \<and>
   list_all (\<lambda>ev. raised demo_no_uber ev = None)
     (butlast (trace (fst (run_notebook demo_no_uber))))"
proof -
  have r: "run_notebook demo_no_uber =
      (fst (run_notebook demo_no_uber), Some (FrameworkError ''File does not exist''))"
    using demo_no_uber_run by (simp add: prod_eq_iff)
  from failures_propagate_unhandled [OF r] demo_no_uber_run show ?thesis
    by simp
qed

subsection \<open>The pipeline\<close>

text \<open>
  C1. A run that reaches the end has asked the outside world for exactly the following,
  in this order: the installation and the imports, the client and the service context,
  the load of the Lyft filing and of the Uber filing, one index over each list of
  documents, one query engine over each index (each asked its question), the
  sub-question engine over the two engines, and the two compare-and-contrast questions
  to that engine. Every object passed on is the one the framework returned before.
\<close>

theorem notebook_pipeline:
  assumes "run_notebook fw = (k, None)"
  shows "\<exists>llm sc lyft_docs uber_docs lyft_index uber_index lyft_engine uber_engine
       a1 a2 s_engine a3 a4.
     OpenAI fw the_llm_args = Inr llm \<and>
     ServiceContext_from_defaults fw None llm = Inr sc \<and>
     SimpleDirectoryReader_load_data fw (Some sc) [lyft_pdf] = Inr lyft_docs \<and>
     SimpleDirectoryReader_load_data fw (Some sc) [uber_pdf] = Inr uber_docs \<and>
     VectorStoreIndex_from_documents fw (Some sc) lyft_docs = Inr lyft_index \<and>
     VectorStoreIndex_from_documents fw (Some sc) uber_docs = Inr uber_index \<and>
     as_query_engine fw (Some sc) lyft_index 3 = Inr lyft_engine \<and>
     as_query_engine fw (Some sc) uber_index 3 = Inr uber_engine \<and>
     aquery fw (Some sc) lyft_engine lyft_question = Inr a1 \<and>
     aquery fw (Some sc) uber_engine uber_question = Inr a2 \<and>
     SubQuestionQueryEngine_from_defaults fw (Some sc)
       [lyft_tool lyft_engine, uber_tool uber_engine] = Inr s_engine \<and>
     aquery fw (Some sc) s_engine segments_question = Inr a3 \<and>
     aquery fw (Some sc) s_engine growth_question = Inr a4 \<and>
     trace k =
       [Shell ''pip install llama-index pypdf'',
        Import_from ''langchain'' [''OpenAI''],
        Import_from ''llama_index''
          [''SimpleDirectoryReader'', ''ServiceContext'', ''VectorStoreIndex''],
        Import_from ''llama_index'' [''set_global_service_context''],
        Import_from ''llama_index.response.pprint_utils'' [''pprint_response''],
        Import_from ''llama_index.tools'' [''QueryEngineTool'', ''ToolMetadata''],
        Import_from ''llama_index.query_engine'' [''SubQuestionQueryEngine''],
        OpenAI_call the_llm_args,
        ServiceContext_call None llm,
        Set_global_call sc,
        Load_data_call (Some sc) [lyft_pdf],
        Load_data_call (Some sc) [uber_pdf],
        Print (''Loaded lyft 10-K with '' @ show_nat (length lyft_docs) @ '' pages''),
        Print (''Loaded Uber 10-K with '' @ show_nat (length uber_docs) @ '' pages''),
        From_documents_call (Some sc) lyft_docs,
        From_documents_call (Some sc) uber_docs,
        As_query_engine_call (Some sc) lyft_index 3,
        As_query_engine_call (Some sc) uber_index 3,
        AQuery_call (Some sc) lyft_engine lyft_question,
        Print (str_of fw a1),
        AQuery_call (Some sc) uber_engine uber_question,
        Print (str_of fw a2),
        SubQuestion_call (Some sc) [lyft_tool lyft_engine, uber_tool uber_engine],
        AQuery_call (Some sc) s_engine segments_question,
        Print (str_of fw a3),
        AQuery_call (Some sc) s_engine growth_question,
        Print (str_of fw a4)]"
proof -
  from complete_run [OF assms] obtain x where p: "produced fw x"
    and k: "k = final_kernel fw x"
    by blast
  from p show ?thesis
    unfolding k
    by (auto simp: produced_def final_kernel_def Let_def)
qed

theorem notebook_pipeline_witness:
  "run_notebook demo_framework = (demo_kernel, None) \<and>
   filter (\<lambda>ev. is_load_data ev \<or> is_from_documents ev \<or> is_as_query_engine ev \<or>
       is_sub_question ev) (trace demo_kernel) =
     [Load_data_call (Some 2) [lyft_pdf],
      Load_data_call (Some 2) [uber_pdf],
      From_documents_call (Some 2) [10, 11],
      From_documents_call (Some 2) [20, 21, 22],
      As_query_engine_call (Some 2) 110 3,
      As_query_engine_call (Some 2) 120 3,
      SubQuestion_call (Some 2) [lyft_tool 1110, uber_tool 1120]]"
  using notebook_pipeline [OF demo_run] demo_run
  by (simp add: demo_kernel_def)

text \<open>
  C7. The program loads twice, each time the one file it names, Lyft's then Uber's.
  The list of documents each load returns is bound as it is, and is the argument of that
  filing's index build, and of no other; there are two index builds.
\<close>

theorem documents_loaded_and_indexed:
  assumes "run_notebook fw = (k, None)"
  shows "\<exists>sc lyft_docs uber_docs lyft_index uber_index.
     filter is_load_data (trace k) =
       [Load_data_call (Some sc) [''../data/10k/lyft_2021.pdf''],
        Load_data_call (Some sc) [''../data/10k/uber_2021.pdf'']] \<and>
     SimpleDirectoryReader_load_data fw (Some sc) [''../data/10k/lyft_2021.pdf''] =
       Inr lyft_docs \<and>
     SimpleDirectoryReader_load_data fw (Some sc) [''../data/10k/uber_2021.pdf''] =
       Inr uber_docs \<and>
     v_lyft_docs k = Some lyft_docs \<and>
     v_uber_docs k = Some uber_docs \<and>
     filter is_from_documents (trace k) =
       [From_documents_call (Some sc) lyft_docs, From_documents_call (Some sc) uber_docs] \<and>
     VectorStoreIndex_from_documents fw (Some sc) lyft_docs = Inr lyft_index \<and>
     VectorStoreIndex_from_documents fw (Some sc) uber_docs = Inr uber_index \<and>
     v_lyft_index k = Some lyft_index \<and>
     v_uber_index k = Some uber_index"
proof -
  from complete_run [OF assms] obtain x where p: "produced fw x"
    and k: "k = final_kernel fw x"
    by blast
  from p show ?thesis
    unfolding k
    by (auto simp: produced_def final_kernel_def Let_def lyft_pdf_def uber_pdf_def)
qed

theorem documents_loaded_and_indexed_witness:
  "run_notebook demo_framework = (demo_kernel, None) \<and>
   filter is_load_data (trace demo_kernel) =
     [Load_data_call (Some 2) [''../data/10k/lyft_2021.pdf''],
      Load_data_call (Some 2) [''../data/10k/uber_2021.pdf'']] \<and>
   v_lyft_docs demo_kernel = Some [10, 11] \<and>
   v_uber_docs demo_kernel = Some [20, 21, 22] \<and>
   filter is_from_documents (trace demo_kernel) =
     [From_documents_call (Some 2) [10, 11], From_documents_call (Some 2) [20, 21, 22]]"
  using documents_loaded_and_indexed [OF demo_run] demo_run
  by (simp add: demo_kernel_def lyft_pdf_def uber_pdf_def)

text \<open>
  C5. One query engine is made over each of the two indices, and no other; both with
  \<^verbatim>\<open>similarity_top_k=3\<close>.
\<close>

theorem query_engines_top_k:
  assumes "run_notebook fw = (k, None)"
  shows "\<exists>sc lyft_docs uber_docs lyft_index uber_index lyft_engine uber_engine.
     filter is_from_documents (trace k) =
       [From_documents_call (Some sc) lyft_docs, From_documents_call (Some sc) uber_docs] \<and>
     VectorStoreIndex_from_documents fw (Some sc) lyft_docs = Inr lyft_index \<and>
     VectorStoreIndex_from_documents fw (Some sc) uber_docs = Inr uber_index \<and>
     v_lyft_index k = Some lyft_index \<and>
     v_uber_index k = Some uber_index \<and>
     filter is_as_query_engine (trace k) =
       [As_query_engine_call (Some sc) lyft_index 3,
        As_query_engine_call (Some sc) uber_index 3] \<and>
     as_query_engine fw (Some sc) lyft_index 3 = Inr lyft_engine \<and>
     as_query_engine fw (Some sc) uber_index 3 = Inr uber_engine \<and>
     v_lyft_engine k = Some lyft_engine \<and>
     v_uber_engine k = Some uber_engine"
proof -
  from complete_run [OF assms] obtain x where p: "produced fw x"
    and k: "k = final_kernel fw x"
    by blast
  from p show ?thesis
    unfolding k
    by (auto simp: produced_def final_kernel_def Let_def)
qed

theorem query_engines_top_k_witness:
  "run_notebook demo_framework = (demo_kernel, None) \<and>
   filter is_as_query_engine (trace demo_kernel) =
     [As_query_engine_call (Some 2) 110 3, As_query_engine_call (Some 2) 120 3] \<and>
   v_lyft_index demo_kernel = Some 110 \<and>
   v_uber_index demo_kernel = Some 120 \<and>
   v_lyft_engine demo_kernel = Some 1110 \<and>
   v_uber_engine demo_kernel = Some 1120"
  using query_engines_top_k [OF demo_run] demo_run
  by (simp add: demo_kernel_def)

text \<open>
  C9. The sub-question engine is made once, from two tools named \<^verbatim>\<open>lyft_10k\<close> and
  \<^verbatim>\<open>uber_10k\<close> (distinct, not empty). The engine inside each tool is the engine bound
  to \<^verbatim>\<open>lyft_engine\<close> (to \<^verbatim>\<open>uber_engine\<close>): the one made over that filing's index
  with \<^verbatim>\<open>similarity_top_k=3\<close> and asked the simple question. No other engine is made
  over an index.
\<close>

theorem sub_question_tools:
  assumes "run_notebook fw = (k, None)"
  shows "\<exists>sc lyft_index uber_index lyft_engine uber_engine s_engine tools.
     tools =
       [\<lparr>query_engine = lyft_engine,
         metadata = \<lparr>name = ''lyft_10k'',
           description = ''Provides information about Lyft financials for year 2021''\<rparr>\<rparr>,
        \<lparr>query_engine = uber_engine,
         metadata = \<lparr>name = ''uber_10k'',
           description = ''Provides information about Uber financials for year 2021''\<rparr>\<rparr>] \<and>
     v_query_engine_tools k = Some tools \<and>
     filter is_sub_question (trace k) = [SubQuestion_call (Some sc) tools] \<and>
     SubQuestionQueryEngine_from_defaults fw (Some sc) tools = Inr s_engine \<and>
     v_s_engine k = Some s_engine \<and>
     distinct (map (\<lambda>t. name (metadata t)) tools) \<and>
     list_all (\<lambda>t. name (metadata t) \<noteq> []) tools \<and>
     filter is_as_query_engine (trace k) =
       [As_query_engine_call (Some sc) lyft_index 3,
        As_query_engine_call (Some sc) uber_index 3] \<and>
     as_query_engine fw (Some sc) lyft_index 3 = Inr lyft_engine \<and>
     as_query_engine fw (Some sc) uber_index 3 = Inr uber_engine \<and>
     v_lyft_engine k = Some lyft_engine \<and>
     v_uber_engine k = Some uber_engine \<and>
     filter is_aquery (trace k) =
       [AQuery_call (Some sc) lyft_engine lyft_question,
        AQuery_call (Some sc) uber_engine uber_question,
        AQuery_call (Some sc) s_engine segments_question,
        AQuery_call (Some sc) s_engine growth_question]"
proof -
  from complete_run [OF assms] obtain x where p: "produced fw x"
    and k: "k = final_kernel fw x"
    by blast
  from p show ?thesis
    unfolding k
    by (auto simp: produced_def final_kernel_def Let_def lyft_tool_def uber_tool_def)
qed

theorem sub_question_tools_witness:
  "run_notebook demo_framework = (demo_kernel, None) \<and>
   map (\<lambda>t. name (metadata t)) (the (v_query_engine_tools demo_kernel)) =
     [''lyft_10k'', ''uber_10k''] \<and>
   map query_engine (the (v_query_engine_tools demo_kernel)) = [1110, 1120] \<and>
   v_lyft_engine demo_kernel = Some 1110 \<and>
   v_uber_engine demo_kernel = Some 1120 \<and>
   filter is_sub_question (trace demo_kernel) =
     [SubQuestion_call (Some 2) [lyft_tool 1110, uber_tool 1120]]"
  using sub_question_tools [OF demo_run] demo_run
  by (simp add: demo_kernel_def lyft_tool_def uber_tool_def)

subsection \<open>Configuration\<close>

text \<open>
  C6. One client is made, with model \<^verbatim>\<open>gpt-3.5-turbo-instruct\<close>, temperature 0 and
  \<^verbatim>\<open>max_tokens\<close> -1. The one service context is made from that client, and is the
  one installed as the global default, under which the eleven later llama_index calls
  are made.
\<close>

theorem one_llm_client:
  assumes "run_notebook fw = (k, None)"
  shows "\<exists>llm sc.
     filter is_openai (trace k) =
       [OpenAI_call \<lparr>temperature = 0, model_name = ''gpt-3.5-turbo-instruct'',
          max_tokens = - 1\<rparr>] \<and>
     OpenAI fw \<lparr>temperature = 0, model_name = ''gpt-3.5-turbo-instruct'',
       max_tokens = - 1\<rparr> = Inr llm \<and>
     v_llm k = Some llm \<and>
     filter is_service_context (trace k) = [ServiceContext_call None llm] \<and>
     ServiceContext_from_defaults fw None llm = Inr sc \<and>
     filter is_set_global (trace k) = [Set_global_call sc] \<and>
     global_service_context k = Some sc \<and>
     List.map_filter config_of (trace k) = None # replicate 11 (Some sc)"
proof -
  from complete_run [OF assms] obtain x where p: "produced fw x"
    and k: "k = final_kernel fw x"
    by blast
  from p show ?thesis
    unfolding k
    by (auto simp: produced_def final_kernel_def the_llm_args_def Let_def
        List.map_filter_simps eval_nat_numeral)
qed

theorem one_llm_client_witness:
  "run_notebook demo_framework = (demo_kernel, None) \<and>
   filter is_openai (trace demo_kernel) =
     [OpenAI_call \<lparr>temperature = 0, model_name = ''gpt-3.5-turbo-instruct'',
        max_tokens = - 1\<rparr>] \<and>
   v_llm demo_kernel = Some 1 \<and>
   filter is_service_context (trace demo_kernel) = [ServiceContext_call None 1]"
  using one_llm_client [OF demo_run] demo_run
  by (simp add: demo_kernel_def the_llm_args_def)

text \<open>
  C3. The service context made from the client is installed as the global default
  once. Before that the program has only installed, imported, and made the client and
  the service context; nothing after it installs a default again, each of the eleven
  loads, index builds, engine constructions and queries that follow is made under it,
  and it is the default when the run ends.
\<close>

theorem global_default_installed_once:
  assumes "run_notebook fw = (k, None)"
  shows "\<exists>llm sc pre post.
     OpenAI fw the_llm_args = Inr llm \<and>
     ServiceContext_from_defaults fw None llm = Inr sc \<and>
     filter is_service_context (trace k) = [ServiceContext_call None llm] \<and>
     trace k = pre @ Set_global_call sc # post \<and>
     list_all (\<lambda>ev. is_shell ev \<or> is_import ev \<or> is_openai ev \<or> is_service_context ev) pre \<and>
     list_all (\<lambda>ev. \<not> is_set_global ev) post \<and>
     List.map_filter config_of post = replicate 11 (Some sc) \<and>
     length (filter (\<lambda>ev. is_load_data ev \<or> is_from_documents ev \<or>
       is_as_query_engine ev \<or> is_sub_question ev \<or> is_aquery ev) post) = 11 \<and>
     global_service_context k = Some sc"
proof -
  from complete_run [OF assms] obtain x where p: "produced fw x"
    and k: "k = final_kernel fw x"
    by blast
  have t: "trace k = take 9 (trace k) @ Set_global_call (r_service_context x) # drop 10 (trace k)"
    unfolding k by (simp add: final_kernel_def Let_def)
  show ?thesis
    apply (rule exI [of _ "r_llm x"])
    apply (rule exI [of _ "r_service_context x"])
    apply (rule exI [of _ "take 9 (trace k)"])
    apply (rule exI [of _ "drop 10 (trace k)"])
    apply (intro conjI)
            apply (use p in \<open>simp add: produced_def Let_def\<close>)
           apply (use p in \<open>simp add: produced_def Let_def\<close>)
          apply (simp add: k final_kernel_def Let_def)
         apply (rule t)
        apply (simp add: k final_kernel_def Let_def)
       apply (simp add: k final_kernel_def Let_def)
      apply (simp add: k final_kernel_def Let_def List.map_filter_simps eval_nat_numeral)
     apply (simp add: k final_kernel_def Let_def)
    apply (simp add: k final_kernel_def Let_def)
    done
qed

theorem global_default_installed_once_witness:
  "run_notebook demo_framework = (demo_kernel, None) \<and>
   filter is_set_global (trace demo_kernel) = [Set_global_call 2] \<and>
   List.map_filter config_of (trace demo_kernel) = None # replicate 11 (Some 2) \<and>
   global_service_context demo_kernel = Some 2"
  using global_default_installed_once [OF demo_run] demo_run
  by (simp add: demo_kernel_def List.map_filter_simps eval_nat_numeral)

subsection \<open>The two filings are kept apart\<close>

lemmas demo_eval = nb_defs line_defs step_defs init_kernel_def demo_framework_def
  with_documents_def lyft_pdf_def uber_pdf_def show_nat_small show_nat_demo

text \<open>
  C10. Whatever question the Lyft engine is asked, its response is the same when the
  Uber file holds any other documents, whenever the query is reached in both runs (a
  call that raises earlier stops the run before the question is asked). The same holds
  for the Uber engine and the Lyft file. The notebook's own two queries, at statements
  19 and 21, are instances.
\<close>

theorem pipelines_do_not_interfere:
  "ask_lyft fw lyft_question = run_to 19 fw \<and>
   ask_uber fw uber_question = run_to 21 fw \<and>
   (\<forall>q docs k k'.
      ask_lyft fw q = (k, None) \<and>
      ask_lyft (with_documents fw uber_pdf docs) q = (k', None) \<longrightarrow>
      (\<exists>r. v_response k = Some r \<and> v_response k' = Some r)) \<and>
   (\<forall>q docs k k'.
      ask_uber fw q = (k, None) \<and>
      ask_uber (with_documents fw lyft_pdf docs) q = (k', None) \<longrightarrow>
      (\<exists>r. v_response k = Some r \<and> v_response k' = Some r))"
proof (intro conjI allI impI)
  show "ask_lyft fw lyft_question = run_to 19 fw"
    by (rule ask_lyft_notebook)
  show "ask_uber fw uber_question = run_to 21 fw"
    by (rule ask_uber_notebook)
next
  fix q docs k k'
  assume a: "ask_lyft fw q = (k, None) \<and>
    ask_lyft (with_documents fw uber_pdf docs) q = (k', None)"
  from a ask_lyft_answer [of fw q k]
    ask_lyft_answer [of "with_documents fw uber_pdf docs" q k']
  show "\<exists>r. v_response k = Some r \<and> v_response k' = Some r"
    by (auto simp: with_documents_fields with_documents_other [OF pdfs_differ(1)])
next
  fix q docs k k'
  assume a: "ask_uber fw q = (k, None) \<and>
    ask_uber (with_documents fw lyft_pdf docs) q = (k', None)"
  from a ask_uber_answer [of fw q k]
    ask_uber_answer [of "with_documents fw lyft_pdf docs" q k']
  show "\<exists>r. v_response k = Some r \<and> v_response k' = Some r"
    by (auto simp: with_documents_fields with_documents_other [OF pdfs_differ(2)])
qed

theorem pipelines_do_not_interfere_witness:
  "snd (ask_lyft demo_framework lyft_question) = None \<and>
   snd (ask_lyft (with_documents demo_framework uber_pdf [30, 31]) lyft_question) = None \<and>
   v_response (fst (ask_lyft demo_framework lyft_question)) = Some 11110 \<and>
   v_response (fst (ask_lyft (with_documents demo_framework uber_pdf [30, 31])
     lyft_question)) = Some 11110 \<and>
   snd (ask_uber demo_framework uber_question) = None \<and>
   snd (ask_uber (with_documents demo_framework lyft_pdf [40]) uber_question) = None \<and>
   v_response (fst (ask_uber demo_framework uber_question)) = Some 11120 \<and>
   v_response (fst (ask_uber (with_documents demo_framework lyft_pdf [40])
     uber_question)) = Some 11120"
proof -
  let ?l = "ask_lyft demo_framework lyft_question"
  let ?l' = "ask_lyft (with_documents demo_framework uber_pdf [30, 31]) lyft_question"
  let ?u = "ask_uber demo_framework uber_question"
  let ?u' = "ask_uber (with_documents demo_framework lyft_pdf [40]) uber_question"
  have l: "snd ?l = None" and lv: "v_response (fst ?l) = Some 11110"
    by (simp_all add: ask_lyft_def demo_eval)
  have l': "snd ?l' = None"
    by (simp add: ask_lyft_def demo_eval)
  have u: "snd ?u = None" and uv: "v_response (fst ?u) = Some 11120"
    by (simp_all add: ask_uber_def demo_eval)
  have u': "snd ?u' = None"
    by (simp add: ask_uber_def demo_eval)
  from l l' have "?l = (fst ?l, None) \<and> ?l' = (fst ?l', None)"
    by (simp add: prod_eq_iff)
  with pipelines_do_not_interfere [of demo_framework]
  have "\<exists>r. v_response (fst ?l) = Some r \<and> v_response (fst ?l') = Some r"
    by blast
  with lv have lv': "v_response (fst ?l') = Some 11110"
    by simp
  from u u' have "?u = (fst ?u, None) \<and> ?u' = (fst ?u', None)"
    by (simp add: prod_eq_iff)
  with pipelines_do_not_interfere [of demo_framework]
  have "\<exists>r. v_response (fst ?u) = Some r \<and> v_response (fst ?u') = Some r"
    by blast
  with uv have uv': "v_response (fst ?u') = Some 11120"
    by simp
  from l l' lv lv' u u' uv uv' show ?thesis
    by simp
qed

end
